theory Spec2Isabelle
  imports Main "HOL-Library.Sublist"
begin

section \<open>Items of the tracker: a model of game\_objects/item.py\<close>

text \<open>
  The module defines two classes. \<open>ItemInfo\<close> is a dict of metadata whose missing
  attributes read as None; \<open>Item\<close> is one collected item, with three boolean flags that
  are written to and read from a flag string, a description generated from the metadata,
  and a reconstruction from a persisted record. The model follows the Python text function
  by function. Exceptions are values of the type \<open>error\<close>; a function that can raise
  returns \<open>error + 'a\<close>, with \<open>Inl\<close> for the exception.
\<close>

subsection \<open>Python values and exceptions\<close>

text \<open>
  The values of a metadata record come from JSON files. Strings, integers, booleans, null and
  lists are modelled as such. \<open>POther b\<close> stands for any other object, of which the model
  keeps the truth value \<open>b\<close> only: a float or a nested dict of the JSON data, and the
  objects a class provides (a bound method, the class itself).
\<close>

datatype pyval =
    PNone
  | PBool bool
  | PInt int
  | PStr string
  | PList "pyval list"
  | POther bool

datatype error =
    IndexError
  | KeyError string
  | TypeError
  | AttributeError string

text \<open>The truth value Python gives an object in \<open>if x:\<close> and \<open>not x\<close>.\<close>

fun truthy :: "pyval \<Rightarrow> bool" where
  "truthy PNone = False"
| "truthy (PBool b) = b"
| "truthy (PInt i) = (i \<noteq> 0)"
| "truthy (PStr s) = (s \<noteq> [])"
| "truthy (PList xs) = (xs \<noteq> [])"
| "truthy (POther b) = b"

text \<open>
  \<open>v + "literal"\<close> and \<open>"literal" + v\<close>: the sum of a string and a value is the
  concatenation when the value is a string, and a type error for every other value that a
  metadata record can hold.
\<close>

fun add_to_str :: "pyval \<Rightarrow> string \<Rightarrow> error + string" where
  "add_to_str (PStr s) lit = Inr (s @ lit)"
| "add_to_str _ lit = Inl TypeError"

fun str_add :: "string \<Rightarrow> pyval \<Rightarrow> error + string" where
  "str_add lit (PStr s) = Inr (lit @ s)"
| "str_add lit _ = Inl TypeError"

text \<open>Sequencing of two steps, the first of which may raise.\<close>

definition err_bind :: "error + 'a \<Rightarrow> ('a \<Rightarrow> error + 'b) \<Rightarrow> error + 'b" where
  "err_bind m f = (case m of Inl e \<Rightarrow> Inl e | Inr x \<Rightarrow> f x)"

subsection \<open>ItemInfo\<close>

text \<open>
  \<open>ItemInfo\<close> is a subclass of dict that makes itself its own attribute dictionary
  (\<open>self.__dict__ = self\<close>). Its model is the mapping from field names to values.
  The constructor copies the mapping it is given.
\<close>

type_synonym ItemInfo = "string \<rightharpoonup> pyval"

definition ItemInfo_init :: "(string \<rightharpoonup> pyval) \<Rightarrow> ItemInfo" where
  "ItemInfo_init values = values"

definition transform_list :: "string list" where
  "transform_list = [''guppy'', ''bob'', ''conjoined'', ''funguy'', ''leviathan'', ''ohcrap'',
     ''seraphim'', ''spun'', ''yesmother'', ''superbum'', ''beelzebub'', ''bookworm'',
     ''spiderbaby'']"

definition stat_list :: "string list" where
  "stat_list = [''dmg'', ''delay'', ''speed'', ''shot_speed'', ''range'', ''height'', ''tears'']"

text \<open>\<open>__getattr__\<close> and \<open>__missing__\<close>, as written: None for every name.\<close>

definition ItemInfo_getattr :: "ItemInfo \<Rightarrow> string \<Rightarrow> pyval" where
  "ItemInfo_getattr self name = PNone"



text \<open>
  Attribute access \<open>info.name\<close> follows Python's lookup order. A data descriptor of the
  class comes first, then the instance dictionary (here the mapping itself), then the other
  attributes of the class, and \<open>__getattr__\<close> is called only when all of these fail.
  The class body of \<open>ItemInfo\<close> defines \<open>transform_list\<close>, \<open>stat_list\<close>, three
  methods and a docstring; the remaining names are those every instance of a subclass of
  dict has in Python 2. The lists of the class, its docstring and the name of its module
  are modelled as they are written; a method and the class are objects of which only the
  truth value is kept; \<open>__hash__\<close> of a dict and \<open>__weakref__\<close> of an object nobody
  refers to weakly are None, and \<open>__dict__\<close> is the dict itself, true when it is not
  empty.
\<close>

definition data_descriptors :: "string list" where
  "data_descriptors = [''__class__'', ''__dict__'', ''__weakref__'']"

definition descriptor_value :: "ItemInfo \<Rightarrow> string \<Rightarrow> pyval" where
  "descriptor_value self name =
     (if name = ''__class__'' then POther True
      else if name = ''__dict__'' then POther (self \<noteq> Map.empty)
      else PNone)"

definition ItemInfo_class_body :: "string list" where
  "ItemInfo_class_body =
     [''__init__'', ''__getattr__'', ''__missing__'', ''__module__'', ''__doc__'']"

definition dict_attributes :: "string list" where
  "dict_attributes = [''__cmp__'', ''__contains__'', ''__delattr__'', ''__delitem__'',
     ''__eq__'', ''__format__'', ''__ge__'', ''__getattribute__'', ''__getitem__'', ''__gt__'',
     ''__hash__'', ''__iter__'', ''__le__'', ''__len__'', ''__lt__'', ''__ne__'', ''__new__'',
     ''__reduce__'', ''__reduce_ex__'', ''__repr__'', ''__setattr__'', ''__setitem__'',
     ''__sizeof__'', ''__str__'', ''__subclasshook__'', ''clear'', ''copy'', ''fromkeys'',
     ''get'', ''has_key'', ''items'', ''iteritems'', ''iterkeys'', ''itervalues'', ''keys'',
     ''pop'', ''popitem'', ''setdefault'', ''update'', ''values'', ''viewitems'', ''viewkeys'',
     ''viewvalues'']"

text \<open>
  The docstring of the class, line by line as it is written, and the name of the module:
  the file is \<open>item.py\<close> of the package \<open>game_objects\<close>, from which it imports
  \<open>game_objects.serializable\<close> itself.
\<close>

definition ItemInfo_doc :: string where
  "ItemInfo_doc =
     concat (map (\<lambda>l. l @ [CHR 0x0A])
     [[],
      ''    dict wrapper for item infos.'',
      ''    Properties and stats can be accessed using instance.my_stat, if it does not'',
      ''    exist, None is returned.'',
      [],
      ''    Here is a list of properties that may be available :'',
      ''        Stats :'',
      ''        - dmg'',
      ''        - dmg_x'',
      ''        - delay'',
      ''        - delay_x'',
      ''        - health'',
      ''        - speed'',
      ''        - shot_speed'',
      ''        - range'',
      ''        - height'',
      ''        - tears'',
      ''        - soul_hearts'',
      ''        - sin_hearts'',
      ''        Properties'',
      ''        - guppy, bob, conjoined, funguy, leviathan, ohcrap, seraphim, spun, yesmother, superbum, beelzebub, bookworm, spiderbaby'',
      ''        - name'',
      ''        - shown'',
      ''        - space'',
      ''        - health_only'',
      ''        - in_summary'',
      ''        - summary_name'',
      ''        # An item that needs to be present for this item to be mentioned in the summary;'',
      ''        # can only be one item right now'',
      ''        - summary_condition'']) @ ''    ''"

definition ItemInfo_module :: string where
  "ItemInfo_module = ''game_objects.item''"

definition class_attribute :: "string \<Rightarrow> pyval option" where
  "class_attribute name =
     (if name = ''transform_list'' then Some (PList (map PStr transform_list))
      else if name = ''stat_list'' then Some (PList (map PStr stat_list))
      else if name = ''__hash__'' then Some PNone
      else if name = ''__doc__'' then Some (PStr ItemInfo_doc)
      else if name = ''__module__'' then Some (PStr ItemInfo_module)
      else if name \<in> set ItemInfo_class_body \<or> name \<in> set dict_attributes
      then Some (POther True)
      else None)"

definition class_attribute_names :: "string list" where
  "class_attribute_names =
     data_descriptors @ [''transform_list'', ''stat_list''] @ ItemInfo_class_body
     @ dict_attributes"

definition ItemInfo_attr :: "ItemInfo \<Rightarrow> string \<Rightarrow> pyval" where
  "ItemInfo_attr self name =
     (if name \<in> set data_descriptors then descriptor_value self name
      else case self name of
          Some v \<Rightarrow> v
        | None \<Rightarrow> (case class_attribute name of
                     Some a \<Rightarrow> a
                   | None \<Rightarrow> ItemInfo_getattr self name))"

subsection \<open>The metadata tables\<close>

text \<open>
  \<open>Item.items_info\<close> and \<open>Item.custom_items_info\<close> are class-level dicts filled once by
  the tracker. The functions that read them take them as the argument \<open>st\<close>.
\<close>

record tables =
  items_info :: "string \<rightharpoonup> (string \<rightharpoonup> pyval)"
  custom_items_info :: "string \<rightharpoonup> (string \<rightharpoonup> pyval)"

definition modded_item_id_prefix :: string where
  "modded_item_id_prefix = ''m''"

text \<open>\<open>s[0]\<close> on a string: its first character as a string, or an index error.\<close>

definition str_first :: "string \<Rightarrow> error + string" where
  "str_first s = (case s of [] \<Rightarrow> Inl IndexError | c # _ \<Rightarrow> Inr [c])"

text \<open>
  \<open>d[k]\<close> on a dict: the value, or a key error. \<open>k in d\<close> is \<open>d k \<noteq> None\<close>.
\<close>

definition dict_get :: "(string \<rightharpoonup> 'v) \<Rightarrow> string \<Rightarrow> error + 'v" where
  "dict_get d k = (case d k of None \<Rightarrow> Inl (KeyError k) | Some v \<Rightarrow> Inr v)"

definition get_item_info :: "tables \<Rightarrow> string \<Rightarrow> error + ItemInfo" where
  "get_item_info st item_id =
     err_bind (str_first item_id) (\<lambda>c.
       if c = modded_item_id_prefix
       then err_bind (dict_get (custom_items_info st) (drop 1 item_id))
              (\<lambda>values. Inr (ItemInfo_init values))
       else err_bind (dict_get (items_info st) item_id)
              (\<lambda>values. Inr (ItemInfo_init values)))"

definition contains_info :: "tables \<Rightarrow> string \<Rightarrow> error + bool" where
  "contains_info st item_id =
     err_bind (str_first item_id) (\<lambda>c.
       if c = modded_item_id_prefix
       then Inr (custom_items_info st (drop 1 item_id) \<noteq> None)
       else Inr (items_info st item_id \<noteq> None))"

subsection \<open>Item\<close>

text \<open>
  Modelled from the spec: the class \<open>Floor\<close> of game\_objects/floor.py is not among the
  sources. The spec says that a floor exposes a \<open>floor_id\<close> accessor and nothing else that
  this module reads, so a floor is the record of its id; as an object without a length or
  truth method it counts as true in \<open>if not floor\<close>.
\<close>

record Floor =
  floor_id :: string

record Item =
  item_id :: string
  floor_obj :: Floor
  starting_item :: bool
  blind :: bool
  was_rerolled :: bool
  info :: ItemInfo

text \<open>
  \<open>serialization_flags\<close> is a dict literal. Python 2 iterates a dict in an order that the
  language does not fix, so \<open>iteritems\<close> is any list \<open>its\<close> that holds each entry of the
  dict once; the functions that loop over the dict take \<open>its\<close> as an argument.
\<close>

definition serialization_flags :: "(string \<times> string) list" where
  "serialization_flags =
     [(''blind'', ''b''), (''was_rerolled'', ''r''), (''starting_item'', ''s'')]"

definition iteritems :: "(string \<times> string) list \<Rightarrow> (string \<times> string) list \<Rightarrow> bool" where
  "iteritems d its \<longleftrightarrow> distinct its \<and> set its = set d"

text \<open>
  \<open>setattr\<close> and \<open>getattr\<close> on the names of \<open>serialization_flags\<close>. An assignment to
  any other name would create an attribute that nothing in the module reads, and leaves the
  record as it is. The module reads no other name through \<open>getattr\<close>; a name that is no
  attribute at all raises an attribute error.
\<close>

definition setattr_Item :: "Item \<Rightarrow> string \<Rightarrow> bool \<Rightarrow> Item" where
  "setattr_Item self varname v =
     (if varname = ''blind'' then self\<lparr>blind := v\<rparr>
      else if varname = ''was_rerolled'' then self\<lparr>was_rerolled := v\<rparr>
      else if varname = ''starting_item'' then self\<lparr>starting_item := v\<rparr>
      else self)"

definition getattr_Item :: "Item \<Rightarrow> string \<Rightarrow> error + pyval" where
  "getattr_Item self varname =
     (if varname = ''blind'' then Inr (PBool (blind self))
      else if varname = ''was_rerolled'' then Inr (PBool (was_rerolled self))
      else if varname = ''starting_item'' then Inr (PBool (starting_item self))
      else Inl (AttributeError varname))"

text \<open>
  The constructor. The flag attributes do not exist before they are assigned; the record
  holds False for them until then. With a flag string each entry of the dict assigns its
  attribute, \<open>flag in flagstr\<close> being the substring test. The metadata is looked up last,
  and the exception of a failed lookup leaves the constructor.
\<close>

definition Item_init ::
  "(string \<times> string) list \<Rightarrow> tables \<Rightarrow> string \<Rightarrow> Floor \<Rightarrow> bool \<Rightarrow> bool \<Rightarrow> bool \<Rightarrow> string option
     \<Rightarrow> error + Item" where
  "Item_init its st iid fl starting was_rr bl flagstr =
     (let self = \<lparr>item_id = iid, floor_obj = fl, starting_item = False, blind = False,
                  was_rerolled = False, info = Map.empty\<rparr>;
          self = (case flagstr of
                    Some fs \<Rightarrow>
                      foldl (\<lambda>self (varname, flag). setattr_Item self varname (sublist flag fs))
                        self its
                  | None \<Rightarrow>
                      self\<lparr>starting_item := starting, blind := bl, was_rerolled := was_rr\<rparr>)
      in err_bind (get_item_info st iid) (\<lambda>i. Inr (self\<lparr>info := i\<rparr>)))"

definition rerolled :: "Item \<Rightarrow> Item" where
  "rerolled self =
     (if \<not> truthy (ItemInfo_attr (info self) ''space'')
      then self\<lparr>was_rerolled := True\<rparr>
      else self)"

text \<open>The property \<open>flags\<close>.\<close>

definition flags :: "(string \<times> string) list \<Rightarrow> Item \<Rightarrow> error + string" where
  "flags its self =
     foldl (\<lambda>acc (varname, flag).
              err_bind acc (\<lambda>flagstr.
              err_bind (getattr_Item self varname) (\<lambda>v.
                Inr (if truthy v then flagstr @ flag else flagstr))))
       (Inr []) its"

text \<open>
  \<open>generate_item_description\<close>. Each of the three helpers is one shape of statement of
  the body: \<open>if v: desc += v + unit\<close>, \<open>if v: desc += "x" + v + unit\<close> and
  \<open>if text: desc += text\<close>.
\<close>

definition add_stat :: "pyval \<Rightarrow> string \<Rightarrow> string \<Rightarrow> error + string" where
  "add_stat v unit desc =
     (if truthy v then err_bind (add_to_str v unit) (\<lambda>t. Inr (desc @ t)) else Inr desc)"

definition add_stat_x :: "pyval \<Rightarrow> string \<Rightarrow> string \<Rightarrow> error + string" where
  "add_stat_x v unit desc =
     (if truthy v then err_bind (str_add ''x'' v) (\<lambda>t. Inr (desc @ (t @ unit))) else Inr desc)"

definition add_text :: "pyval \<Rightarrow> string \<Rightarrow> error + string" where
  "add_text v desc = (if truthy v then str_add desc v else Inr desc)"

definition generate_item_description :: "Item \<Rightarrow> error + string" where
  "generate_item_description self =
     (let desc = [];
          text = ItemInfo_attr (info self) ''text'';
          dmg = ItemInfo_attr (info self) ''dmg'';
          dmg_x = ItemInfo_attr (info self) ''dmg_x'';
          delay = ItemInfo_attr (info self) ''delay'';
          delay_x = ItemInfo_attr (info self) ''delay_x'';
          health = ItemInfo_attr (info self) ''health'';
          speed = ItemInfo_attr (info self) ''speed'';
          shot_speed = ItemInfo_attr (info self) ''shot_speed'';
          tear_range = ItemInfo_attr (info self) ''range'';
          height = ItemInfo_attr (info self) ''height'';
          tears = ItemInfo_attr (info self) ''tears'';
          soul_hearts = ItemInfo_attr (info self) ''soul_hearts'';
          sin_hearts = ItemInfo_attr (info self) ''sin_hearts''
      in
      err_bind (add_stat dmg '' dmg, '' desc) (\<lambda>desc.
      err_bind (add_stat_x dmg_x '' dmg, '' desc) (\<lambda>desc.
      err_bind (add_stat tears '' tears, '' desc) (\<lambda>desc.
      err_bind (add_stat delay '' tear delay, '' desc) (\<lambda>desc.
      err_bind (add_stat_x delay_x '' tear delay, '' desc) (\<lambda>desc.
      err_bind (add_stat shot_speed '' shotspeed, '' desc) (\<lambda>desc.
      err_bind (add_stat tear_range '' range, '' desc) (\<lambda>desc.
      err_bind (add_stat height '' height, '' desc) (\<lambda>desc.
      err_bind (add_stat speed '' speed, '' desc) (\<lambda>desc.
      err_bind (add_stat health '' health, '' desc) (\<lambda>desc.
      err_bind (add_stat soul_hearts '' soul hearts, '' desc) (\<lambda>desc.
      err_bind (add_stat sin_hearts '' sin hearts, '' desc) (\<lambda>desc.
      err_bind (add_text text desc) (\<lambda>desc.
        let desc = (if suffix '', '' desc then take (length desc - 2) desc else desc);
            desc = (if length desc > 0 then '': '' @ desc else desc)
        in Inr desc))))))))))))))"

text \<open>
  The description in the words of the specification: the stat fields in their fixed order,
  each with its optional prefix and its unit label followed by a comma and a space, then the
  free text; a trailing comma and space is removed, and what is left, when not empty, is
  prefixed by a colon and a space. A field is present when it holds a non-empty string.
\<close>

definition stat_fields :: "(string \<times> string \<times> string) list" where
  "stat_fields =
     [([], ''dmg'', '' dmg''), (''x'', ''dmg_x'', '' dmg''), ([], ''tears'', '' tears''),
      ([], ''delay'', '' tear delay''), (''x'', ''delay_x'', '' tear delay''),
      ([], ''shot_speed'', '' shotspeed''), ([], ''range'', '' range''),
      ([], ''height'', '' height''), ([], ''speed'', '' speed''), ([], ''health'', '' health''),
      ([], ''soul_hearts'', '' soul hearts''), ([], ''sin_hearts'', '' sin hearts'')]"

definition field_text :: "ItemInfo \<Rightarrow> string \<Rightarrow> string" where
  "field_text i key = (case i key of Some (PStr s) \<Rightarrow> s | _ \<Rightarrow> [])"

definition segment :: "ItemInfo \<Rightarrow> string \<Rightarrow> string \<Rightarrow> string \<Rightarrow> string" where
  "segment i pre key suf =
     (if field_text i key = [] then [] else pre @ field_text i key @ suf)"

definition spec_description :: "ItemInfo \<Rightarrow> string" where
  "spec_description i =
     (let body = concat (map (\<lambda>(pre, key, unit). segment i pre key (unit @ '', '')) stat_fields)
                 @ field_text i ''text'';
          body = (if suffix '', '' body then take (length body - 2) body else body)
      in if body = [] then [] else '': '' @ body)"

text \<open>
  A field the description can use: one whose value counts as false (absent, None, the empty
  string, zero, False, an empty list) or is a string.
\<close>

definition usable :: "pyval \<Rightarrow> bool" where
  "usable v = (case v of PStr s \<Rightarrow> True | _ \<Rightarrow> \<not> truthy v)"

definition description_fields :: "string list" where
  "description_fields = map (\<lambda>(pre, key, unit). key) stat_fields @ [''text'']"

definition all_usable :: "ItemInfo \<Rightarrow> bool" where
  "all_usable i = list_all (\<lambda>key. usable (ItemInfo_attr i key)) description_fields"

text \<open>
  Equality, inequality and hash. The other operand of a comparison is any object: an item,
  None, or something else. The built-in \<open>hash\<close> of strings is the argument \<open>h\<close>.
\<close>

datatype pyobj = ItemObj Item | NoneObj | OtherObj

fun isinstance_Item :: "pyobj \<Rightarrow> bool" where
  "isinstance_Item (ItemObj x) = True"
| "isinstance_Item _ = False"

definition Item_eq :: "Item \<Rightarrow> pyobj \<Rightarrow> bool" where
  "Item_eq self other =
     (if \<not> isinstance_Item other then False
      else (case other of ItemObj x \<Rightarrow> other \<noteq> NoneObj \<and> item_id self = item_id x
                        | _ \<Rightarrow> False))"

definition Item_ne :: "Item \<Rightarrow> pyobj \<Rightarrow> bool" where
  "Item_ne self other =
     (if \<not> isinstance_Item other then True
      else (case other of ItemObj x \<Rightarrow> other = NoneObj \<or> item_id self \<noteq> item_id x
                        | _ \<Rightarrow> True))"

definition Item_hash :: "(string \<Rightarrow> int) \<Rightarrow> Item \<Rightarrow> int" where
  "Item_hash h self = h (item_id self)"

subsection \<open>Reconstruction from a persisted record\<close>

text \<open>
  \<open>from_valid_json\<close> receives a type-checked dict: its three entries are strings (the
  class attribute \<open>serialize\<close> declares them so).
\<close>

record json_dic =
  json_item_id :: string
  json_floor_id :: string
  json_flags :: string

text \<open>
  Modelled from the spec: \<open>log_error\<close> of the module error\_stuff is not among the sources.
  The spec describes it as a logging sink that records the report and lets the caller go on.
  The log is the list of the reports made so far, a report being the message and its
  argument.
\<close>

type_synonym log = "(string \<times> string) list"

definition log_error :: "string \<Rightarrow> string \<Rightarrow> log \<Rightarrow> log" where
  "log_error msg arg lg = lg @ [(msg, arg)]"

text \<open>
  The result is the value returned (None when no item is made) or the exception raised,
  together with the log.
\<close>

definition from_valid_json ::
  "(string \<times> string) list \<Rightarrow> tables \<Rightarrow> json_dic \<Rightarrow> Floor list \<Rightarrow> log
     \<Rightarrow> (error + Item option) \<times> log" where
  "from_valid_json its st dic floor_list lg =
     (case find (\<lambda>f. floor_id f = json_floor_id dic) floor_list of
        None \<Rightarrow>
          (Inr None,
           log_error ''ERROR: Floor id %s is not found in state list'' (json_floor_id dic) lg)
      | Some fl \<Rightarrow>
          (err_bind (contains_info st (json_item_id dic)) (\<lambda>known.
             let iid = (if \<not> known then ''NEW'' else json_item_id dic);
                 flagstr = json_flags dic
             in err_bind (Item_init its st iid fl False False False (Some flagstr))
                  (\<lambda>item. Inr (Some item))),
           lg))"

subsection \<open>Example data\<close>

text \<open>
  Small tables in the shape of the tracker's data files, used to run the functions on
  concrete inputs: three built-in items, one of them the placeholder \<open>NEW\<close>, and one custom
  item.
\<close>

definition example_tables :: tables where
  "example_tables =
     \<lparr>items_info =
        [''NEW'' \<mapsto> [''name'' \<mapsto> PStr ''Unknown item''],
         ''123'' \<mapsto> [''name'' \<mapsto> PStr ''Monster Manual'', ''space'' \<mapsto> PBool True],
         ''7'' \<mapsto> [''name'' \<mapsto> PStr ''Blood of the Martyr'', ''dmg'' \<mapsto> PStr ''+1'',
                  ''tears'' \<mapsto> PStr ''+0.2'', ''text'' \<mapsto> PStr ''Extra info'']],
      custom_items_info =
        [''Betrayal'' \<mapsto> [''name'' \<mapsto> PStr ''Betrayal'', ''dmg'' \<mapsto> PInt 1]]\<rparr>"

definition example_floor :: Floor where
  "example_floor = \<lparr>floor_id = ''F1''\<rparr>"

definition example_order :: "(string \<times> string) list" where
  "example_order =
     [(''was_rerolled'', ''r''), (''starting_item'', ''s''), (''blind'', ''b'')]"

section \<open>Properties\<close>

subsection \<open>Auxiliary facts\<close>

lemma err_bind_simps:
  "err_bind (Inl e) f = Inl e" "err_bind (Inr x) f = f x"
  by (simp_all add: err_bind_def)

lemma three_orders:
  assumes "distinct its" "set its = {a, b, c}" "a \<noteq> b" "a \<noteq> c" "b \<noteq> c"
  shows "its \<in> {[a, b, c], [a, c, b], [b, a, c], [b, c, a], [c, a, b], [c, b, a]}"
proof -
  have "length its = 3"
    using assms distinct_card[of its] by simp
  then obtain x y z where its: "its = [x, y, z]"
    by (metis length_0_conv length_Suc_conv numeral_3_eq_3)
  have mem: "x \<in> {a, b, c}" "y \<in> {a, b, c}" "z \<in> {a, b, c}"
    using assms(2) unfolding its by auto
  have ne: "x \<noteq> y" "x \<noteq> z" "y \<noteq> z"
    using assms(1) unfolding its by auto
  show ?thesis using mem ne unfolding its by auto
qed

lemma iteritems_cases:
  assumes "iteritems serialization_flags its"
  shows "its \<in> {[(''blind'', ''b''), (''was_rerolled'', ''r''), (''starting_item'', ''s'')],
     [(''blind'', ''b''), (''starting_item'', ''s''), (''was_rerolled'', ''r'')],
     [(''was_rerolled'', ''r''), (''blind'', ''b''), (''starting_item'', ''s'')],
     [(''was_rerolled'', ''r''), (''starting_item'', ''s''), (''blind'', ''b'')],
     [(''starting_item'', ''s''), (''blind'', ''b''), (''was_rerolled'', ''r'')],
     [(''starting_item'', ''s''), (''was_rerolled'', ''r''), (''blind'', ''b'')]}"
  using assms three_orders[of its "(''blind'', ''b'')" "(''was_rerolled'', ''r'')" "(''starting_item'', ''s'')"]
  by (simp add: iteritems_def serialization_flags_def)

lemma sublist_single: "sublist [c] s \<longleftrightarrow> c \<in> set s"
  by (induction s) (auto simp: sublist_Cons_right)

lemma flags_members:
  assumes "iteritems serialization_flags its"
  shows "\<exists>s. flags its x = Inr s \<and> (CHR ''b'' \<in> set s \<longleftrightarrow> blind x) \<and>
     (CHR ''r'' \<in> set s \<longleftrightarrow> was_rerolled x) \<and> (CHR ''s'' \<in> set s \<longleftrightarrow> starting_item x)"
  using iteritems_cases[OF assms]
  by (auto simp: flags_def getattr_Item_def err_bind_simps)

lemma decode_loop:
  assumes "iteritems serialization_flags its"
  shows "foldl (\<lambda>self (varname, flag). setattr_Item self varname (sublist flag fs)) self its
     = self\<lparr>starting_item := CHR ''s'' \<in> set fs, blind := CHR ''b'' \<in> set fs,
            was_rerolled := CHR ''r'' \<in> set fs\<rparr>"
  using iteritems_cases[OF assms]
  by (auto simp: setattr_Item_def sublist_single)

lemma Item_init_flagstr:
  assumes "iteritems serialization_flags its"
  shows "Item_init its st iid fl s r b (Some fs) =
     (case get_item_info st iid of
        Inl e \<Rightarrow> Inl e
      | Inr i \<Rightarrow> Inr \<lparr>item_id = iid, floor_obj = fl, starting_item = CHR ''s'' \<in> set fs,
                     blind = CHR ''b'' \<in> set fs, was_rerolled = CHR ''r'' \<in> set fs, info = i\<rparr>)"
  by (simp add: Item_init_def decode_loop[OF assms] err_bind_def split: sum.splits)

lemma example_order_iteritems: "iteritems serialization_flags example_order"
  by (simp add: iteritems_def serialization_flags_def example_order_def insert_commute)

lemma serialization_flags_iteritems: "iteritems serialization_flags serialization_flags"
  by (simp add: iteritems_def serialization_flags_def)

lemma get_item_info_7:
  "get_item_info example_tables ''7'' = Inr [''name'' \<mapsto> PStr ''Blood of the Martyr'', ''dmg'' \<mapsto> PStr ''+1'',
                  ''tears'' \<mapsto> PStr ''+0.2'', ''text'' \<mapsto> PStr ''Extra info'']"
  by (simp add: get_item_info_def example_tables_def str_first_def err_bind_simps modded_item_id_prefix_def dict_get_def ItemInfo_init_def)

subsection \<open>The flag string\<close>

text \<open>
  Claim C1. For each of the eight values of the three flags, the string produced by the
  property \<open>flags\<close> is decoded by the constructor into the same three values. This holds
  for every order in which the dict is iterated when encoding and when decoding, and for
  every string with the same characters as the encoded one, so the order of the characters
  plays no role. The constructor fails only when the metadata lookup of the new item fails.
\<close>

theorem flags_round_trip:
  assumes "iteritems serialization_flags its1" and "iteritems serialization_flags its2"
  shows "\<exists>s. flags its1 x = Inr s \<and>
     (\<forall>s'. set s' = set s \<longrightarrow>
        Item_init its2 st iid fl a b c (Some s') =
          (case get_item_info st iid of
             Inl e \<Rightarrow> Inl e
           | Inr i \<Rightarrow> Inr \<lparr>item_id = iid, floor_obj = fl, starting_item = starting_item x,
                          blind = blind x, was_rerolled = was_rerolled x, info = i\<rparr>))"
proof -
  obtain s where s: "flags its1 x = Inr s" "CHR ''b'' \<in> set s \<longleftrightarrow> blind x"
    "CHR ''r'' \<in> set s \<longleftrightarrow> was_rerolled x" "CHR ''s'' \<in> set s \<longleftrightarrow> starting_item x"
    using flags_members[OF assms(1), of x] by blast
  show ?thesis
  proof (intro exI conjI allI impI)
    show "flags its1 x = Inr s" by (rule s(1))
  next
    fix s' assume "set s' = set s"
    then show "Item_init its2 st iid fl a b c (Some s') =
          (case get_item_info st iid of
             Inl e \<Rightarrow> Inl e
           | Inr i \<Rightarrow> Inr \<lparr>item_id = iid, floor_obj = fl, starting_item = starting_item x,
                          blind = blind x, was_rerolled = was_rerolled x, info = i\<rparr>)"
      using s(2-4) by (simp add: Item_init_flagstr[OF assms(2)] cong: sum.case_cong)
  qed
qed

theorem flags_round_trip_witness:
  "iteritems serialization_flags example_order \<and> iteritems serialization_flags serialization_flags \<and>
   flags example_order \<lparr>item_id = ''123'', floor_obj = example_floor, starting_item = True,
       blind = True, was_rerolled = False, info = Map.empty\<rparr> = Inr ''sb'' \<and>
   Item_init serialization_flags example_tables ''7'' example_floor False True False (Some ''bs'')
     = Inr \<lparr>item_id = ''7'', floor_obj = example_floor, starting_item = True, blind = True,
            was_rerolled = False, info = [''name'' \<mapsto> PStr ''Blood of the Martyr'', ''dmg'' \<mapsto> PStr ''+1'',
                  ''tears'' \<mapsto> PStr ''+0.2'', ''text'' \<mapsto> PStr ''Extra info'']\<rparr>"
proof -
  let ?x = "\<lparr>item_id = ''123'', floor_obj = example_floor, starting_item = True,
       blind = True, was_rerolled = False, info = Map.empty\<rparr>"
  have fl: "flags example_order ?x = Inr ''sb''"
    by (simp add: flags_def example_order_def getattr_Item_def err_bind_simps)
  obtain s where s: "flags example_order ?x = Inr s"
    and all: "\<And>s'. set s' = set s \<Longrightarrow>
      Item_init serialization_flags example_tables ''7'' example_floor False True False (Some s')
       = (case get_item_info example_tables ''7'' of
             Inl e \<Rightarrow> Inl e
           | Inr i \<Rightarrow> Inr \<lparr>item_id = ''7'', floor_obj = example_floor,
                          starting_item = starting_item ?x, blind = blind ?x,
                          was_rerolled = was_rerolled ?x, info = i\<rparr>)"
    using flags_round_trip[OF example_order_iteritems serialization_flags_iteritems,
      of ?x example_tables "''7''" example_floor False True False]
    by blast
  from s fl have "s = ''sb''" by simp
  then have "set ''bs'' = set s" by auto
  from all[OF this]
  have "Item_init serialization_flags example_tables ''7'' example_floor False True False (Some ''bs'')
     = (case get_item_info example_tables ''7'' of
             Inl e \<Rightarrow> Inl e
           | Inr i \<Rightarrow> Inr \<lparr>item_id = ''7'', floor_obj = example_floor, starting_item = True,
                          blind = True, was_rerolled = False, info = i\<rparr>)"
    by (simp cong: sum.case_cong)
  then show ?thesis
    using fl example_order_iteritems serialization_flags_iteritems by (simp add: get_item_info_7)
qed

text \<open>
  Claim C9. With a flag string the constructor ignores its three boolean arguments: two calls
  that differ only in them return the same result, and the flags of the new item are the
  substring tests on the flag string.
\<close>

theorem flagstr_overrides_arguments:
  assumes "iteritems serialization_flags its"
  shows "Item_init its st iid fl s r b (Some fs) = Item_init its st iid fl s' r' b' (Some fs) \<and>
     Item_init its st iid fl s r b (Some fs) =
       (case get_item_info st iid of
          Inl e \<Rightarrow> Inl e
        | Inr i \<Rightarrow> Inr \<lparr>item_id = iid, floor_obj = fl, starting_item = sublist ''s'' fs,
                       blind = sublist ''b'' fs, was_rerolled = sublist ''r'' fs, info = i\<rparr>)"
  by (simp add: Item_init_flagstr[OF assms] sublist_single cong: sum.case_cong)

theorem flagstr_overrides_arguments_witness:
  "iteritems serialization_flags example_order \<and>
   Item_init example_order example_tables ''7'' example_floor True True True (Some ''r'') =
   Item_init example_order example_tables ''7'' example_floor False False False (Some ''r'') \<and>
   Item_init example_order example_tables ''7'' example_floor True True True (Some ''r'') =
     Inr \<lparr>item_id = ''7'', floor_obj = example_floor, starting_item = False, blind = False,
          was_rerolled = True,
          info = [''name'' \<mapsto> PStr ''Blood of the Martyr'', ''dmg'' \<mapsto> PStr ''+1'',
                  ''tears'' \<mapsto> PStr ''+0.2'', ''text'' \<mapsto> PStr ''Extra info'']\<rparr>"
  using flagstr_overrides_arguments[OF example_order_iteritems,
      of example_tables "''7''" example_floor True True True "''r''" False False False]
    example_order_iteritems
  by (auto simp add: get_item_info_7 sublist_single)

subsection \<open>The metadata tables\<close>

text \<open>
  Claim C10. Both table functions read the first character of the identifier. On the empty
  string they raise an index error, where a table lookup would have answered False or
  raised a key error; the empty string is the only identifier on which they raise it.
\<close>

theorem empty_item_id_index_error:
  "get_item_info st [] = Inl IndexError \<and> contains_info st [] = Inl IndexError \<and>
   (get_item_info st iid = Inl IndexError \<longleftrightarrow> iid = []) \<and>
   (contains_info st iid = Inl IndexError \<longleftrightarrow> iid = [])"
  by (cases iid)
    (simp_all add: get_item_info_def contains_info_def str_first_def err_bind_def dict_get_def
      split: option.splits)

theorem empty_item_id_index_error_witness:
  "get_item_info example_tables [] = Inl IndexError \<and>
   contains_info example_tables [] = Inl IndexError \<and>
   get_item_info example_tables ''123'' \<noteq> Inl IndexError \<and>
   contains_info example_tables ''123'' \<noteq> Inl IndexError"
  using empty_item_id_index_error[of example_tables "''123''"] by simp

text \<open>
  Claim C5, as amended. An identifier that begins with the prefix \<open>m\<close> is looked up in
  the custom table under the rest of the identifier, by \<open>get_item_info\<close> and by
  \<open>contains_info\<close>. Every other identifier that is not empty is looked up in the table of
  built-in items under the identifier itself. A lookup that finds nothing is a key error of
  \<open>get_item_info\<close> and the answer False of \<open>contains_info\<close>.
\<close>

theorem lookup_routing:
  "get_item_info st (CHR ''m'' # rest) =
     (case custom_items_info st rest of
        None \<Rightarrow> Inl (KeyError rest)
      | Some values \<Rightarrow> Inr (ItemInfo_init values)) \<and>
   contains_info st (CHR ''m'' # rest) = Inr (rest \<in> dom (custom_items_info st)) \<and>
   (iid \<noteq> [] \<and> hd iid \<noteq> CHR ''m'' \<longrightarrow>
      get_item_info st iid =
        (case items_info st iid of
           None \<Rightarrow> Inl (KeyError iid)
         | Some values \<Rightarrow> Inr (ItemInfo_init values)) \<and>
      contains_info st iid = Inr (iid \<in> dom (items_info st)))"
  by (cases iid)
    (auto simp add: get_item_info_def contains_info_def str_first_def err_bind_def dict_get_def
      modded_item_id_prefix_def split: option.splits)

theorem lookup_routing_witness:
  "get_item_info example_tables ''mBetrayal'' =
     Inr [''name'' \<mapsto> PStr ''Betrayal'', ''dmg'' \<mapsto> PInt 1] \<and>
   contains_info example_tables ''mBetrayal'' = Inr True \<and>
   ''123'' \<noteq> [] \<and> hd ''123'' \<noteq> CHR ''m'' \<and>
   get_item_info example_tables ''123'' =
     Inr [''name'' \<mapsto> PStr ''Monster Manual'', ''space'' \<mapsto> PBool True] \<and>
   contains_info example_tables ''123'' = Inr True"
  using lookup_routing[of example_tables "''Betrayal''" "''123''"]
  by (simp add: example_tables_def ItemInfo_init_def)

text \<open>
  The claim as written also covers the empty identifier, which does not begin with the
  prefix: there neither function consults the table of built-in items.
\<close>

theorem lookup_routing_counterexample:
  "contains_info example_tables [] \<noteq> Inr ([] \<in> dom (items_info example_tables)) \<and>
   get_item_info example_tables [] \<noteq>
     (case items_info example_tables [] of
        None \<Rightarrow> Inl (KeyError [])
      | Some values \<Rightarrow> Inr (ItemInfo_init values))"
  by (simp add: contains_info_def get_item_info_def str_first_def err_bind_def
      example_tables_def)

subsection \<open>Access to the fields of an ItemInfo\<close>

lemma ItemInfo_attr_plain:
  assumes "name \<notin> set class_attribute_names"
  shows "ItemInfo_attr i name = (case i name of Some v \<Rightarrow> v | None \<Rightarrow> PNone)"
proof -
  have "''__hash__'' \<in> set dict_attributes"
    and "''__doc__'' \<in> set ItemInfo_class_body" and "''__module__'' \<in> set ItemInfo_class_body"
    by (simp_all add: dict_attributes_def ItemInfo_class_body_def)
  with assms have "name \<notin> set data_descriptors" and "class_attribute name = None"
    by (auto simp: class_attribute_names_def class_attribute_def)
  then show ?thesis
    by (simp add: ItemInfo_attr_def ItemInfo_getattr_def split: option.splits)
qed

lemma field_names_plain:
  "set [''space'', ''name'', ''text'', ''dmg'', ''dmg_x'', ''delay'', ''delay_x'', ''health'', ''speed'',
     ''shot_speed'', ''range'', ''height'', ''tears'', ''soul_hearts'', ''sin_hearts'', [], ''class'']
   \<inter> set class_attribute_names = {}"
  by (simp add: class_attribute_names_def data_descriptors_def ItemInfo_class_body_def
      dict_attributes_def)

lemma ItemInfo_attr_space:
  "ItemInfo_attr i ''space'' = (case i ''space'' of Some v \<Rightarrow> v | None \<Rightarrow> PNone)"
  using field_names_plain by (intro ItemInfo_attr_plain) auto





subsection \<open>Rerolling, equality and hash\<close>

text \<open>
  Claim C7. \<open>rerolled\<close> leaves an item whose metadata has a true \<open>space\<close> field as it
  is, and sets \<open>was_rerolled\<close> of every other item to True. No other field changes, and
  nothing in the body can raise.
\<close>

theorem rerolled_effect:
  "rerolled self =
     (if (case info self ''space'' of Some v \<Rightarrow> truthy v | None \<Rightarrow> False) then self
      else self\<lparr>was_rerolled := True\<rparr>) \<and>
   item_id (rerolled self) = item_id self \<and> floor_obj (rerolled self) = floor_obj self \<and>
   starting_item (rerolled self) = starting_item self \<and> blind (rerolled self) = blind self \<and>
   info (rerolled self) = info self"
  by (simp add: rerolled_def ItemInfo_attr_space split: option.splits)

theorem rerolled_effect_witness:
  "rerolled \<lparr>item_id = ''123'', floor_obj = example_floor, starting_item = False,
       blind = False, was_rerolled = False,
       info = [''name'' \<mapsto> PStr ''Monster Manual'', ''space'' \<mapsto> PBool True]\<rparr>
     = \<lparr>item_id = ''123'', floor_obj = example_floor, starting_item = False,
       blind = False, was_rerolled = False,
       info = [''name'' \<mapsto> PStr ''Monster Manual'', ''space'' \<mapsto> PBool True]\<rparr> \<and>
   rerolled \<lparr>item_id = ''NEW'', floor_obj = example_floor, starting_item = False,
       blind = True, was_rerolled = False, info = [''name'' \<mapsto> PStr ''Unknown item'']\<rparr>
     = \<lparr>item_id = ''NEW'', floor_obj = example_floor, starting_item = False,
       blind = True, was_rerolled = True, info = [''name'' \<mapsto> PStr ''Unknown item'']\<rparr>"
  using rerolled_effect[of "\<lparr>item_id = ''123'', floor_obj = example_floor,
       starting_item = False, blind = False, was_rerolled = False,
       info = [''name'' \<mapsto> PStr ''Monster Manual'', ''space'' \<mapsto> PBool True]\<rparr>"]
    rerolled_effect[of "\<lparr>item_id = ''NEW'', floor_obj = example_floor,
       starting_item = False, blind = True, was_rerolled = False,
       info = [''name'' \<mapsto> PStr ''Unknown item'']\<rparr>"]
  by simp

text \<open>
  Claim C8. Two items are equal exactly when their \<open>item_id\<close> fields are equal, whatever
  their floors and flags; the hash of an item is the hash of its \<open>item_id\<close>, so equal items
  have equal hashes; and \<open>__ne__\<close> is the negation of \<open>__eq__\<close> on items.
\<close>

theorem item_identity:
  "Item_eq x (ItemObj y) = (item_id x = item_id y) \<and>
   Item_ne x (ItemObj y) = (\<not> Item_eq x (ItemObj y)) \<and>
   Item_hash h x = h (item_id x) \<and>
   (Item_eq x (ItemObj y) \<longrightarrow> Item_hash h x = Item_hash h y)"
  by (simp add: Item_eq_def Item_ne_def Item_hash_def)

theorem item_identity_witness:
  "Item_eq \<lparr>item_id = ''7'', floor_obj = example_floor, starting_item = False, blind = False,
           was_rerolled = False, info = Map.empty\<rparr>
     (ItemObj \<lparr>item_id = ''7'', floor_obj = \<lparr>floor_id = ''F2''\<rparr>, starting_item = True,
           blind = True, was_rerolled = True, info = Map.empty\<rparr>) \<and>
   Item_hash (\<lambda>s. int (length s))
     \<lparr>item_id = ''7'', floor_obj = example_floor, starting_item = False, blind = False,
           was_rerolled = False, info = Map.empty\<rparr>
   = Item_hash (\<lambda>s. int (length s))
     \<lparr>item_id = ''7'', floor_obj = \<lparr>floor_id = ''F2''\<rparr>, starting_item = True,
           blind = True, was_rerolled = True, info = Map.empty\<rparr> \<and>
   \<not> Item_ne \<lparr>item_id = ''7'', floor_obj = example_floor, starting_item = False, blind = False,
           was_rerolled = False, info = Map.empty\<rparr>
     (ItemObj \<lparr>item_id = ''7'', floor_obj = \<lparr>floor_id = ''F2''\<rparr>, starting_item = True,
           blind = True, was_rerolled = True, info = Map.empty\<rparr>)"
  using item_identity[of "\<lparr>item_id = ''7'', floor_obj = example_floor, starting_item = False,
           blind = False, was_rerolled = False, info = Map.empty\<rparr>"
      "\<lparr>item_id = ''7'', floor_obj = \<lparr>floor_id = ''F2''\<rparr>, starting_item = True,
           blind = True, was_rerolled = True, info = Map.empty\<rparr>" "\<lambda>s. int (length s)"]
  by auto

subsection \<open>Reconstruction from a persisted record\<close>

lemma find_floor:
  assumes "fid \<in> floor_id ` set floor_list"
  shows "find (\<lambda>f. floor_id f = fid) floor_list = Some \<lparr>floor_id = fid\<rparr>"
proof (cases "find (\<lambda>f. floor_id f = fid) floor_list")
  case None
  then show ?thesis using assms by (auto simp: find_None_iff)
next
  case (Some f)
  then have "floor_id f = fid" by (auto simp: find_Some_iff)
  then have "f = \<lparr>floor_id = fid\<rparr>" by (cases f) simp
  with Some show ?thesis by simp
qed

text \<open>
  Claim C4. When no floor of the list has the \<open>floor_id\<close> of the record,
  \<open>from_valid_json\<close> reports the error to the log and returns None: no item is made and
  no exception is raised, whatever the other fields of the record are.
\<close>

theorem unknown_floor_is_logged:
  assumes "json_floor_id dic \<notin> floor_id ` set floor_list"
  shows "from_valid_json its st dic floor_list lg =
     (Inr None,
      lg @ [(''ERROR: Floor id %s is not found in state list'', json_floor_id dic)])"
proof -
  have "find (\<lambda>f. floor_id f = json_floor_id dic) floor_list = None"
    using assms by (force simp: find_None_iff)
  then show ?thesis by (simp add: from_valid_json_def log_error_def)
qed

theorem unknown_floor_is_logged_witness:
  "''MISSING'' \<notin> floor_id ` set [example_floor] \<and>
   from_valid_json example_order example_tables
     \<lparr>json_item_id = ''7'', json_floor_id = ''MISSING'', json_flags = ''rb''\<rparr>
     [example_floor] []
   = (Inr None, [(''ERROR: Floor id %s is not found in state list'', ''MISSING'')])"
proof -
  have h: "json_floor_id \<lparr>json_item_id = ''7'', json_floor_id = ''MISSING'', json_flags = ''rb''\<rparr>
      \<notin> floor_id ` set [example_floor]"
    by (simp add: example_floor_def)
  show ?thesis
    using unknown_floor_is_logged[OF h, of example_order example_tables "[]"] h by simp
qed

text \<open>
  Claim C3, as amended. Take a record whose \<open>item_id\<close> is not empty and is unknown to the
  tables (the rest of an identifier with the prefix \<open>m\<close> is no key of the custom table;
  any other identifier is no key of the table of built-in items), and whose \<open>floor_id\<close>
  is the id of a floor of the list. When the table of built-in items has the placeholder
  entry \<open>NEW\<close>, as the specification assumes, \<open>from_valid_json\<close> returns an item with
  the id \<open>NEW\<close>, the metadata of \<open>NEW\<close>, the floor found, and the flags read from the
  flag string of the record; nothing is logged.
\<close>

theorem unknown_item_becomes_NEW:
  assumes "iteritems serialization_flags its"
    and "json_item_id dic \<noteq> []"
    and "if hd (json_item_id dic) = CHR ''m''
         then tl (json_item_id dic) \<notin> dom (custom_items_info st)
         else json_item_id dic \<notin> dom (items_info st)"
    and "json_floor_id dic \<in> floor_id ` set floor_list"
    and "items_info st ''NEW'' = Some values"
  shows "from_valid_json its st dic floor_list lg =
     (Inr (Some \<lparr>item_id = ''NEW'', floor_obj = \<lparr>floor_id = json_floor_id dic\<rparr>,
                  starting_item = sublist ''s'' (json_flags dic),
                  blind = sublist ''b'' (json_flags dic),
                  was_rerolled = sublist ''r'' (json_flags dic),
                  info = ItemInfo_init values\<rparr>), lg)"
proof -
  have c: "contains_info st (json_item_id dic) = Inr False"
    using assms(2,3)
    by (cases "json_item_id dic")
      (auto simp: contains_info_def str_first_def err_bind_simps modded_item_id_prefix_def
        split: if_splits)
  have g: "get_item_info st ''NEW'' = Inr (ItemInfo_init values)"
    using assms(5)
    by (simp add: get_item_info_def str_first_def err_bind_simps modded_item_id_prefix_def
        dict_get_def)
  show ?thesis
    by (simp add: from_valid_json_def find_floor[OF assms(4)] c g err_bind_simps
        Item_init_flagstr[OF assms(1)] sublist_single Let_def)
qed

theorem unknown_item_becomes_NEW_witness:
  "iteritems serialization_flags example_order \<and> ''999999'' \<noteq> [] \<and>
   ''999999'' \<notin> dom (items_info example_tables) \<and>
   ''999999'' \<notin> dom (custom_items_info example_tables) \<and>
   ''F1'' \<in> floor_id ` set [example_floor] \<and>
   items_info example_tables ''NEW'' = Some [''name'' \<mapsto> PStr ''Unknown item''] \<and>
   from_valid_json example_order example_tables
     \<lparr>json_item_id = ''999999'', json_floor_id = ''F1'', json_flags = ''rb''\<rparr>
     [example_floor] []
   = (Inr (Some \<lparr>item_id = ''NEW'', floor_obj = \<lparr>floor_id = ''F1''\<rparr>, starting_item = False,
                 blind = True, was_rerolled = True,
                 info = [''name'' \<mapsto> PStr ''Unknown item'']\<rparr>), [])"
proof -
  let ?dic = "\<lparr>json_item_id = ''999999'', json_floor_id = ''F1'', json_flags = ''rb''\<rparr>"
  have h2: "json_item_id ?dic \<noteq> []" by simp
  have h3: "if hd (json_item_id ?dic) = CHR ''m''
         then tl (json_item_id ?dic) \<notin> dom (custom_items_info example_tables)
         else json_item_id ?dic \<notin> dom (items_info example_tables)"
    by (simp add: example_tables_def)
  have h4: "json_floor_id ?dic \<in> floor_id ` set [example_floor]"
    by (simp add: example_floor_def)
  have h5: "items_info example_tables ''NEW'' = Some [''name'' \<mapsto> PStr ''Unknown item'']"
    by (simp add: example_tables_def)
  have absent: "''999999'' \<notin> dom (items_info example_tables)"
    "''999999'' \<notin> dom (custom_items_info example_tables)"
    by (simp_all add: example_tables_def)
  show ?thesis
    using unknown_item_becomes_NEW[OF example_order_iteritems h2 h3 h4 h5, of "[]"]
      example_order_iteritems h4 h5 absent
    by (simp add: sublist_single ItemInfo_init_def)
qed

text \<open>
  The claim as written also covers a record with the empty \<open>item_id\<close>, which is a key of
  neither table: there the index error of \<open>contains_info\<close> leaves \<open>from_valid_json\<close>.
\<close>

theorem unknown_item_becomes_NEW_counterexample:
  "[] \<notin> dom (items_info example_tables) \<and> [] \<notin> dom (custom_items_info example_tables) \<and>
   ''F1'' \<in> floor_id ` set [example_floor] \<and>
   from_valid_json example_order example_tables
     \<lparr>json_item_id = [], json_floor_id = ''F1'', json_flags = ''rb''\<rparr> [example_floor] []
   = (Inl IndexError, [])"
  by (simp add: from_valid_json_def example_floor_def example_tables_def contains_info_def
      str_first_def err_bind_simps)

subsection \<open>The generated description\<close>

lemma plain_names:
  "''text'' \<notin> set class_attribute_names" "''dmg'' \<notin> set class_attribute_names"
  "''dmg_x'' \<notin> set class_attribute_names" "''delay'' \<notin> set class_attribute_names"
  "''delay_x'' \<notin> set class_attribute_names" "''health'' \<notin> set class_attribute_names"
  "''speed'' \<notin> set class_attribute_names" "''shot_speed'' \<notin> set class_attribute_names"
  "''range'' \<notin> set class_attribute_names" "''height'' \<notin> set class_attribute_names"
  "''tears'' \<notin> set class_attribute_names" "''soul_hearts'' \<notin> set class_attribute_names"
  "''sin_hearts'' \<notin> set class_attribute_names"
  using field_names_plain by auto

lemma usable_cases:
  "usable v \<longleftrightarrow> (\<exists>s. v = PStr s) \<or> \<not> truthy v"
  by (cases v) (simp_all add: usable_def)

lemma add_stat_attr:
  assumes "key \<notin> set class_attribute_names"
  shows "add_stat (ItemInfo_attr i key) suf desc =
     (if usable (ItemInfo_attr i key) then Inr (desc @ segment i [] key suf) else Inl TypeError)"
proof (cases "i key")
  case None
  then show ?thesis
    by (simp add: ItemInfo_attr_plain[OF assms] add_stat_def usable_def segment_def field_text_def)
next
  case (Some v)
  then show ?thesis
    by (cases v)
      (simp_all add: ItemInfo_attr_plain[OF assms] add_stat_def usable_def segment_def
        field_text_def err_bind_simps)
qed

lemma add_stat_x_attr:
  assumes "key \<notin> set class_attribute_names"
  shows "add_stat_x (ItemInfo_attr i key) suf desc =
     (if usable (ItemInfo_attr i key) then Inr (desc @ segment i ''x'' key suf) else Inl TypeError)"
proof (cases "i key")
  case None
  then show ?thesis
    by (simp add: ItemInfo_attr_plain[OF assms] add_stat_x_def usable_def segment_def field_text_def)
next
  case (Some v)
  then show ?thesis
    by (cases v)
      (simp_all add: ItemInfo_attr_plain[OF assms] add_stat_x_def usable_def segment_def
        field_text_def err_bind_simps)
qed

lemma add_text_attr:
  assumes "key \<notin> set class_attribute_names"
  shows "add_text (ItemInfo_attr i key) desc =
     (if usable (ItemInfo_attr i key) then Inr (desc @ field_text i key) else Inl TypeError)"
proof (cases "i key")
  case None
  then show ?thesis
    by (simp add: ItemInfo_attr_plain[OF assms] add_text_def usable_def field_text_def)
next
  case (Some v)
  then show ?thesis
    by (cases v)
      (simp_all add: ItemInfo_attr_plain[OF assms] add_text_def usable_def field_text_def)
qed

lemma all_usable_iff:
  "all_usable i \<longleftrightarrow>
     usable (ItemInfo_attr i ''dmg'') \<and> usable (ItemInfo_attr i ''dmg_x'') \<and>
     usable (ItemInfo_attr i ''tears'') \<and> usable (ItemInfo_attr i ''delay'') \<and>
     usable (ItemInfo_attr i ''delay_x'') \<and> usable (ItemInfo_attr i ''shot_speed'') \<and>
     usable (ItemInfo_attr i ''range'') \<and> usable (ItemInfo_attr i ''height'') \<and>
     usable (ItemInfo_attr i ''speed'') \<and> usable (ItemInfo_attr i ''health'') \<and>
     usable (ItemInfo_attr i ''soul_hearts'') \<and> usable (ItemInfo_attr i ''sin_hearts'') \<and>
     usable (ItemInfo_attr i ''text'')"
  by (simp add: all_usable_def description_fields_def stat_fields_def)

lemma description_usable:
  assumes "all_usable (info self)"
  shows "generate_item_description self = Inr (spec_description (info self))"
  using assms unfolding all_usable_iff
  by (simp add: generate_item_description_def spec_description_def stat_fields_def
      add_stat_attr add_stat_x_attr add_text_attr plain_names err_bind_simps Let_def)

lemma description_unusable:
  assumes "\<not> all_usable (info self)"
  shows "generate_item_description self = Inl TypeError"
  using assms unfolding all_usable_iff
  by (simp add: generate_item_description_def 
      add_stat_attr add_stat_x_attr add_text_attr plain_names err_bind_simps Let_def)

text \<open>
  Claim C2, as amended. When each of the twelve stat fields and the free text is absent,
  counts as false (an empty string, zero) or is a string, \<open>generate_item_description\<close>
  returns the description of the specification: the fields that hold a non-empty string, in
  the order dmg, dmg\_x, tears, delay, delay\_x, shot\_speed, range, height, speed, health,
  soul\_hearts, sin\_hearts, each with its prefix and its unit label and a comma and a space,
  then the free text; a trailing comma and space removed; the result prefixed by a colon and
  a space unless it is empty. When one of these fields holds any other value that counts as
  true, such as a number that is not zero, the call raises a type error.
\<close>

theorem description_matches_spec:
  "generate_item_description self =
     (if all_usable (info self) then Inr (spec_description (info self)) else Inl TypeError)"
  by (simp add: description_usable description_unusable)

theorem description_matches_spec_witness:
  "all_usable [''dmg'' \<mapsto> PStr ''+1'', ''tears'' \<mapsto> PStr ''+0.2'', ''text'' \<mapsto> PStr ''Extra info''] \<and>
   generate_item_description
     \<lparr>item_id = ''7'', floor_obj = example_floor, starting_item = False, blind = False,
      was_rerolled = False,
      info = [''dmg'' \<mapsto> PStr ''+1'', ''tears'' \<mapsto> PStr ''+0.2'', ''text'' \<mapsto> PStr ''Extra info'']\<rparr>
   = Inr '': +1 dmg, +0.2 tears, Extra info'' \<and>
   all_usable [''name'' \<mapsto> PStr ''Unknown item'', ''dmg'' \<mapsto> PInt 0] \<and>
   generate_item_description
     \<lparr>item_id = ''NEW'', floor_obj = example_floor, starting_item = False, blind = False,
      was_rerolled = False, info = [''name'' \<mapsto> PStr ''Unknown item'', ''dmg'' \<mapsto> PInt 0]\<rparr>
   = Inr []"
proof -
  let ?i = "[''dmg'' \<mapsto> PStr ''+1'', ''tears'' \<mapsto> PStr ''+0.2'', ''text'' \<mapsto> PStr ''Extra info'']"
  let ?j = "[''name'' \<mapsto> PStr ''Unknown item'', ''dmg'' \<mapsto> PInt 0]"
  have ui: "all_usable ?i"
    by (simp add: all_usable_iff ItemInfo_attr_plain plain_names usable_def)
  have uj: "all_usable ?j"
    by (simp add: all_usable_iff ItemInfo_attr_plain plain_names usable_def)
  have si: "spec_description ?i = '': +1 dmg, +0.2 tears, Extra info''"
    by (simp add: spec_description_def stat_fields_def segment_def field_text_def suffix_def)
  have sj: "spec_description ?j = []"
    by (simp add: spec_description_def stat_fields_def segment_def field_text_def suffix_def)
  show ?thesis
    using description_matches_spec[of "\<lparr>item_id = ''7'', floor_obj = example_floor,
        starting_item = False, blind = False, was_rerolled = False, info = ?i\<rparr>"]
      description_matches_spec[of "\<lparr>item_id = ''NEW'', floor_obj = example_floor,
        starting_item = False, blind = False, was_rerolled = False, info = ?j\<rparr>"]
      ui uj si sj
    by simp
qed

text \<open>
  The claim as written counts a number that is not zero as a present field and has it
  concatenated. A record with the damage 1 stored as a number has no description: adding the
  number to the unit label raises a type error.
\<close>

theorem description_matches_spec_counterexample:
  "truthy (PInt 1) \<and>
   generate_item_description
     \<lparr>item_id = ''mBetrayal'', floor_obj = example_floor, starting_item = False,
      blind = False, was_rerolled = False,
      info = [''name'' \<mapsto> PStr ''Betrayal'', ''dmg'' \<mapsto> PInt 1]\<rparr>
   = Inl TypeError"
  by (simp add: generate_item_description_def ItemInfo_attr_plain plain_names add_stat_def
      err_bind_simps)

end
